theory Spec2Isabelle
  imports Main
begin

section \<open>The result server of Cuckoo Sandbox (cuckoo/core/resultserver.py)\<close>

text \<open>
  The module is embedded function by function. Strings are byte strings, as the
  module treats them: \<open>self.buf = ""\<close> is extended by what \<open>recv\<close> returns, a
  \<open>store_as\<close> is decoded with \<open>decode("utf-8")\<close>, \<open>map\<close> builds its list at once, and
  the banned characters are given as bytes. Exceptions are values of the type
  \<open>error\<close>; a function that can raise returns \<open>error + 'a\<close>.
\<close>

subsection \<open>Constants\<close>

definition MAX_NETLOG_LINE :: nat where
  "MAX_NETLOG_LINE = 4 * 1024"

definition RESULT_UPLOADABLE :: "string list" where
  "RESULT_UPLOADABLE =
     [''files'', ''shots'', ''buffer'', ''extracted'', ''memory'', ''package_files'', ''logs'']"

definition BANNED_PATH_CHARS :: "char list" where
  "BANNED_PATH_CHARS = [CHR 0x00, CHR '':'']"

subsection \<open>Exceptions\<close>

datatype errno = EEXIST | EBADF | ECONNRESET | EOTHER nat

datatype operr =
    BannedPath string
  | OverlyLongLine
  | NoDumpPath int
  | Overwrite int

datatype error =
    CuckooOperationalError operr
  | EOFError
  | OSError errno
  | SocketError errno
  | KeyError
  | AttributeError
  | ValueError
  | TypeError
  | UnicodeError

subsection \<open>Library functions on paths and strings\<close>

text \<open>
  \<open>str.replace("\\", "/")\<close>: every backslash becomes a forward slash.
\<close>

definition replace_backslash :: "string \<Rightarrow> string" where
  "replace_backslash p = map (\<lambda>c. if c = CHR 0x5C then CHR ''/'' else c) p"

text \<open>
  \<open>os.path.split\<close> of posixpath: the head is everything up to and including the
  last slash, the tail what follows it; trailing slashes are stripped from the head
  unless the head consists of slashes only.
\<close>

definition rstrip_slash :: "string \<Rightarrow> string" where
  "rstrip_slash s = rev (dropWhile (\<lambda>c. c = CHR ''/'') (rev s))"

definition os_path_split :: "string \<Rightarrow> string \<times> string" where
  "os_path_split p =
     (let i = length p - length (takeWhile (\<lambda>c. c \<noteq> CHR ''/'') (rev p));
          head = take i p;
          tail = drop i p
      in (if head \<noteq> [] \<and> head \<noteq> replicate (length head) (CHR ''/'')
          then rstrip_slash head else head,
          tail))"

text \<open>
  \<open>os.path.join\<close> of posixpath for two components.
\<close>

definition os_path_join :: "string \<Rightarrow> string \<Rightarrow> string" where
  "os_path_join a b =
     (if b \<noteq> [] \<and> hd b = CHR ''/'' then b
      else if a = [] \<or> last a = CHR ''/'' then a @ b
      else a @ ''/'' @ b)"

text \<open>
  The split that the specification words: once on the last slash, the slash itself
  belonging to neither part. A path without a slash has an empty directory part.
\<close>

definition split_last_slash :: "string \<Rightarrow> string \<times> string" where
  "split_last_slash p =
     (let i = length p - length (takeWhile (\<lambda>c. c \<noteq> CHR ''/'') (rev p))
      in (take (i - 1) p, drop i p))"

subsection \<open>netlog_sanitize_fname\<close>

definition netlog_sanitize_fname :: "string \<Rightarrow> error + string" where
  "netlog_sanitize_fname raw =
     (let path = replace_backslash raw;
          (dir_part, name) = os_path_split path
      in if dir_part \<notin> set RESULT_UPLOADABLE
         then Inl (CuckooOperationalError (BannedPath path))
         else if list_ex (\<lambda>c. c \<in> set BANNED_PATH_CHARS) name
         then Inl (CuckooOperationalError (BannedPath path))
         else Inr path)"

subsection \<open>JSON values and the host's library functions\<close>

text \<open>
  A parsed header is a JSON value; \<open>JNull\<close> is also Python's \<open>None\<close>. An object is the
  list of its items. Numbers are integers: a header that is a fraction is outside the
  model.
\<close>

datatype json =
    JNull
  | JBool bool
  | JInt int
  | JStr string
  | JArr "json list"
  | JObj "(string \<times> json) list"

text \<open>Python's truth value of a JSON value (\<open>if not dump_path\<close>).\<close>

fun truthy :: "json \<Rightarrow> bool" where
  "truthy JNull = False"
| "truthy (JBool b) = b"
| "truthy (JInt n) = (n \<noteq> 0)"
| "truthy (JStr s) = (s \<noteq> [])"
| "truthy (JArr xs) = (xs \<noteq> [])"
| "truthy (JObj kv) = (kv \<noteq> [])"

text \<open>
  \<open>header.get(key, default)\<close>: only a dictionary has the method; on \<open>None\<close>, a number,
  a string or a list the call raises AttributeError.
\<close>

fun header_get :: "json \<Rightarrow> string \<Rightarrow> json \<Rightarrow> error + json" where
  "header_get (JObj kv) k d = Inr (case map_of kv k of None \<Rightarrow> d | Some v \<Rightarrow> v)"
| "header_get _ k d = Inl AttributeError"

text \<open>
  What the module takes from its host and from Python's library: the JSON codec,
  \<open>int\<close> on a string, UTF-8 decoding, the configured \<open>upload_max_size\<close> and the
  directory of an analysis (\<open>cwd(analysis=task_id)\<close>). A parser that returns \<open>None\<close>
  stands for the one that raises.
\<close>

record env =
  json_loads :: "string \<Rightarrow> json option"
  json_dumps :: "json \<Rightarrow> string"
  py_int :: "string \<Rightarrow> int option"
  utf8_decode :: "string \<Rightarrow> string option"
  config_upload_max_size :: int
  cwd :: "int \<Rightarrow> string"

text \<open>\<open>s.split(",")\<close> and \<open>s.split(" ", 1)\<close>.\<close>

fun split_char :: "char \<Rightarrow> string \<Rightarrow> string list" where
  "split_char sep [] = [[]]"
| "split_char sep (c # cs) =
     (if c = sep then [] # split_char sep cs
      else (case split_char sep cs of
              [] \<Rightarrow> [[c]]
            | x # xs \<Rightarrow> (c # x) # xs))"

definition split_once :: "string \<Rightarrow> string \<times> string option" where
  "split_once s =
     (if CHR '' '' \<in> set s
      then (takeWhile (\<lambda>c. c \<noteq> CHR '' '') s, Some (tl (dropWhile (\<lambda>c. c \<noteq> CHR '' '') s)))
      else (s, None))"

text \<open>\<open>buf.find("\n")\<close>: the index of the first newline, \<open>None\<close> for \<open>-1\<close>.\<close>

definition find_newline :: "string \<Rightarrow> nat option" where
  "find_newline b =
     (if CHR 0x0A \<in> set b then Some (length (takeWhile (\<lambda>c. c \<noteq> CHR 0x0A) b)) else None)"

text \<open>\<open>buf[:n]\<close> for a possibly negative \<open>n\<close>.\<close>

definition py_prefix :: "string \<Rightarrow> int \<Rightarrow> string" where
  "py_prefix b n = (if 0 \<le> n then take (nat n) b else take (length b - nat (- n)) b)"

text \<open>\<open>"%d" % n\<close> for an integer.\<close>

definition digit_char :: "nat \<Rightarrow> char" where
  "digit_char d = char_of (48 + d)"

function show_nat :: "nat \<Rightarrow> string" where
  "show_nat n = (if n < 10 then [digit_char n] else show_nat (n div 10) @ [digit_char (n mod 10)])"
  by pat_completeness auto
termination
  by (relation "measure id") auto

declare show_nat.simps [simp del]

definition show_int :: "int \<Rightarrow> string" where
  "show_int i = (if i < 0 then CHR ''-'' # show_nat (nat (- i)) else show_nat (nat i))"

subsection \<open>Sockets, sessions and the server's state\<close>

text \<open>
  A socket is the sequence of results that the successive \<open>recv\<close> calls on it will
  have: data, or a socket error. When the sequence is used up the peer has closed and
  \<open>recv\<close> returns the empty string. A \<open>recv(16384)\<close> returns at most 16384 bytes; the
  model allows a result of any length.
\<close>

datatype recv_event = Data string | Fail errno

datatype level = DEBUG | WARNING | ERROR

text \<open>
  What the server does to its surroundings, in order: taking and releasing
  \<open>task_mgmt_lock\<close>, log records (level and message), writes to the three registry
  dictionaries, \<open>cancel\<close> of a session, calls of the real-time dispatcher, the task log
  and socket timeouts.
\<close>

datatype event =
    Acquire
  | Release
  | Log level string
  | RegWrite string
  | Cancel nat
  | RtStart nat nat
  | RtOnMessage nat json
  | TaskLogStart int
  | TaskLogStop int
  | SetTimeout "nat option"

text \<open>
  \<open>HandlerContext\<close>. \<open>ctx_id\<close> is the identity of the object (the sets of running
  handlers hold the objects themselves); \<open>rt\<close> names a dispatcher; \<open>buf\<close> is \<open>None\<close>
  once drained.
\<close>

record ctx =
  ctx_id :: nat
  task_id :: int
  command :: "string option"
  rt :: "nat option"
  response_id :: json
  storagepath :: string
  sock :: "recv_event list"
  buf :: "string option"

text \<open>
  The worker's three dictionaries (\<open>tasks\<close>, \<open>rthandlers\<close>, \<open>handlers\<close>), the file
  system and the events so far. A set of handlers is the list of its members; no
  property below depends on the order. \<open>open_errors\<close> holds the paths that the
  operating system refuses to open for a reason other than their existence.
\<close>

record world =
  tasks :: "string \<rightharpoonup> int"
  rthandlers :: "int \<rightharpoonup> nat"
  handlers :: "int \<rightharpoonup> nat list"
  fs :: "string \<rightharpoonup> string"
  open_errors :: "string \<rightharpoonup> errno"
  trace :: "event list"

definition emit :: "event \<Rightarrow> world \<Rightarrow> world" where
  "emit e w = w\<lparr>trace := trace w @ [e]\<rparr>"

definition HandlerContext_init :: "nat \<Rightarrow> int \<Rightarrow> string \<Rightarrow> recv_event list \<Rightarrow> nat option \<Rightarrow> ctx" where
  "HandlerContext_init cid tid sp sk r =
     \<lparr>ctx_id = cid, task_id = tid, command = None, rt = r, response_id = JNull,
      storagepath = sp, sock = sk, buf = Some []\<rparr>"

text \<open>
  \<open>cancel\<close>: \<open>shutdown(SHUT_RD)\<close> on the socket; a socket error is swallowed.
\<close>

definition cancel :: "nat \<Rightarrow> world \<Rightarrow> world" where
  "cancel cid w = emit (Cancel cid) w"

subsection \<open>HandlerContext: read, read_newline, copy_to_fd\<close>

definition read :: "ctx \<Rightarrow> world \<Rightarrow> (error + string) \<times> ctx \<times> world" where
  "read c w =
     (case sock c of
        [] \<Rightarrow> (Inr [], c, w)
      | Data d # evs \<Rightarrow> (Inr d, c\<lparr>sock := evs\<rparr>, w)
      | Fail e # evs \<Rightarrow>
          if e = EBADF then (Inr [], c\<lparr>sock := evs\<rparr>, w)
          else if e \<noteq> ECONNRESET then (Inl (SocketError e), c\<lparr>sock := evs\<rparr>, w)
          else (Inr [], c\<lparr>sock := evs\<rparr>,
                emit (Log DEBUG ''Task had connection reset'') w))"

lemma read_shrinks:
  "read c w = (Inr d, c', w') \<Longrightarrow> d \<noteq> [] \<Longrightarrow> length (sock c') < length (sock c)"
  by (auto simp: read_def split: list.splits recv_event.splits if_splits)

definition drain_buffer :: "ctx \<Rightarrow> string option \<times> ctx" where
  "drain_buffer c = (buf c, c\<lparr>buf := None\<rparr>)"

function read_newline :: "ctx \<Rightarrow> world \<Rightarrow> (error + string) \<times> ctx \<times> world" where
  "read_newline c w =
     (case buf c of
        None \<Rightarrow> (Inl AttributeError, c, w)
      | Some b \<Rightarrow>
          (case find_newline b of
             Some pos \<Rightarrow> (Inr (take pos b), c\<lparr>buf := Some (drop (pos + 1) b)\<rparr>, w)
           | None \<Rightarrow>
               if MAX_NETLOG_LINE \<le> length b
               then (Inl (CuckooOperationalError OverlyLongLine), c, w)
               else (case read c w of
                       (Inl e, c', w') \<Rightarrow> (Inl e, c', w')
                     | (Inr d, c', w') \<Rightarrow>
                         if d = [] then (Inl EOFError, c', w')
                         else read_newline (c'\<lparr>buf := Some (b @ d)\<rparr>) w')))"
  by pat_completeness auto
termination
  by (relation "measure (\<lambda>(c, w). length (sock c))") (auto dest: read_shrinks [OF sym])

declare read_newline.simps [simp del]

subsection \<open>Files\<close>

text \<open>
  An open file is named by its path; what is written to it is appended to the file's
  content. \<open>os.open(path, O_CREAT|O_EXCL|O_WRONLY)\<close> fails with EEXIST on a path that
  exists; \<open>open(path, "wb")\<close> truncates; \<open>open(path, "a+b")\<close> creates the file when it
  is missing. Writing to an open file does not fail, and \<open>flush\<close>, \<open>close\<close> and \<open>tell\<close>
  change nothing that is modelled.
\<close>

definition open_exclusive :: "string \<Rightarrow> world \<Rightarrow> (error + string) \<times> world" where
  "open_exclusive path w =
     (case open_errors w path of
        Some e \<Rightarrow> (Inl (OSError e), w)
      | None \<Rightarrow>
          if path \<in> dom (fs w) then (Inl (OSError EEXIST), w)
          else (Inr path, w\<lparr>fs := (fs w)(path \<mapsto> [])\<rparr>))"

definition open_wb :: "string \<Rightarrow> world \<Rightarrow> (error + string) \<times> world" where
  "open_wb path w =
     (case open_errors w path of
        Some e \<Rightarrow> (Inl (OSError e), w)
      | None \<Rightarrow> (Inr path, w\<lparr>fs := (fs w)(path \<mapsto> [])\<rparr>))"

definition fd_write :: "string \<Rightarrow> string \<Rightarrow> world \<Rightarrow> world" where
  "fd_write fd data w =
     w\<lparr>fs := (fs w)(fd \<mapsto> (case fs w fd of None \<Rightarrow> data | Some old \<Rightarrow> old @ data))\<rparr>"

definition append_line :: "string \<Rightarrow> string \<Rightarrow> world \<Rightarrow> (error + unit) \<times> world" where
  "append_line path line w =
     (case open_errors w path of
        Some e \<Rightarrow> (Inl (OSError e), w)
      | None \<Rightarrow> (Inr (), fd_write path (line @ [CHR 0x0A]) w))"

subsection \<open>WriteLimiter\<close>

record WriteLimiter =
  lim_fd :: string
  remain :: int
  warned :: bool

definition truncated_marker :: string where
  "truncated_marker = ''... (truncated)''"

definition truncation_warning :: event where
  "truncation_warning =
     Log WARNING ''Uploaded file length larger than upload_max_size, stopping upload.''"

definition WriteLimiter_write :: "WriteLimiter \<Rightarrow> string \<Rightarrow> world \<Rightarrow> WriteLimiter \<times> world" where
  "WriteLimiter_write l b w =
     (let size = int (length b);
          write = min size (remain l);
          (l1, w1) = (if write \<noteq> 0
                      then (l\<lparr>remain := remain l - write\<rparr>,
                            fd_write (lim_fd l) (py_prefix b write) w)
                      else (l, w))
      in if size \<noteq> 0 \<and> size \<noteq> write \<and> \<not> warned l1
         then (l1\<lparr>warned := True\<rparr>,
               fd_write (lim_fd l1) truncated_marker (emit truncation_warning w1))
         else (l1, w1))"

text \<open>
  What \<open>copy_to_fd\<close> writes to: the file itself, or the file behind a WriteLimiter.
\<close>

datatype sink = Plain string | Limited WriteLimiter

fun sink_write :: "sink \<Rightarrow> string \<Rightarrow> world \<Rightarrow> sink \<times> world" where
  "sink_write (Plain fd) b w = (Plain fd, fd_write fd b w)"
| "sink_write (Limited l) b w = (let (l', w') = WriteLimiter_write l b w in (Limited l', w'))"

function copy_loop :: "ctx \<Rightarrow> sink \<Rightarrow> world \<Rightarrow> (error + unit) \<times> ctx \<times> sink \<times> world" where
  "copy_loop c s w =
     (case read c w of
        (Inl e, c', w') \<Rightarrow> (Inl e, c', s, w')
      | (Inr d, c', w') \<Rightarrow>
          if d = [] then (Inr (), c', s, w')
          else (let (s', w'') = sink_write s d w' in copy_loop c' s' w''))"
  by pat_completeness auto
termination
  by (relation "measure (\<lambda>(c, s, w). length (sock c))") (auto dest: read_shrinks [OF sym])

declare copy_loop.simps [simp del]

text \<open>
  \<open>copy_to_fd(fd, max_size)\<close>: the limiter is put in only when \<open>max_size\<close> is true,
  that is neither \<open>None\<close> nor 0. Writing the drained buffer raises TypeError when the
  buffer has been drained before.
\<close>

definition make_sink :: "string \<Rightarrow> int option \<Rightarrow> sink" where
  "make_sink fd max_size =
     (case max_size of
        None \<Rightarrow> Plain fd
      | Some m \<Rightarrow> if m \<noteq> 0 then Limited \<lparr>lim_fd = fd, remain = m, warned = False\<rparr> else Plain fd)"

definition copy_to_fd :: "ctx \<Rightarrow> string \<Rightarrow> int option \<Rightarrow> world \<Rightarrow> (error + unit) \<times> ctx \<times> world" where
  "copy_to_fd c fd max_size w =
     (let (drained, c1) = drain_buffer c
      in case drained of
           None \<Rightarrow> (Inl TypeError, c1, w)
         | Some b \<Rightarrow>
             (let (s1, w1) = sink_write (make_sink fd max_size) b w;
                  (r, c2, s2, w2) = copy_loop c1 s1 w1
              in (r, c2, w2)))"

subsection \<open>Protocol handlers\<close>

datatype cmd = BSON | FILE | LOG | REALTIME

text \<open>
  A \<open>ProtocolHandler\<close> object. The constructor sets \<open>task_id\<close>, \<open>fd\<close> and \<open>header\<close>;
  the other attributes are set by \<open>init\<close> or \<open>handle\<close> of the subclass that has them,
  and no method reads one before it is set.
\<close>

record proto =
  kind :: cmd
  p_task_id :: int
  header :: json
  fd :: "string option"
  p_response_id :: json
  upload_max_size :: int
  p_storagepath :: string
  filelog :: string
  logpath :: string

definition ProtocolHandler_init :: "cmd \<Rightarrow> int \<Rightarrow> json \<Rightarrow> proto" where
  "ProtocolHandler_init k tid hdr =
     \<lparr>kind = k, p_task_id = tid, header = hdr, fd = None, p_response_id = JNull,
      upload_max_size = 0, p_storagepath = [], filelog = [], logpath = []\<rparr>"

definition close :: "proto \<Rightarrow> proto" where
  "close p = p\<lparr>fd := None\<rparr>"

subsubsection \<open>FileUpload\<close>

definition FileUpload_init :: "env \<Rightarrow> proto \<Rightarrow> ctx \<Rightarrow> proto" where
  "FileUpload_init e p c =
     p\<lparr>upload_max_size := config_upload_max_size e,
       p_storagepath := storagepath c,
       fd := None,
       filelog := os_path_join (storagepath c) ''files.json''\<rparr>"

text \<open>
  Lines 188 to 201: the header of the two old protocol versions is read from the
  socket, field by field in the order of the dictionary display; a version 3 header
  gives the response id. The result is the handler with its header in place.
\<close>

definition parse_pids :: "env \<Rightarrow> string \<Rightarrow> error + json" where
  "parse_pids e line =
     (let ns = map (py_int e) (split_char (CHR '','') line)
      in if list_ex (\<lambda>n. n = None) ns then Inl ValueError
         else Inr (JArr (map (\<lambda>n. JInt (the n)) ns)))"

definition FileUpload_header :: "env \<Rightarrow> proto \<Rightarrow> ctx \<Rightarrow> world \<Rightarrow> (error + proto) \<times> ctx \<times> world" where
  "FileUpload_header e p c w =
     (if header p = JNull then
        (case read_newline c w of
           (Inl err, c1, w1) \<Rightarrow> (Inl err, c1, w1)
         | (Inr store_as, c1, w1) \<Rightarrow>
             (Inr (p\<lparr>header := JObj [(''store_as'', JStr store_as)]\<rparr>), c1, w1))
      else if header p = JInt 2 then
        (case read_newline c w of
           (Inl err, c1, w1) \<Rightarrow> (Inl err, c1, w1)
         | (Inr store_as, c1, w1) \<Rightarrow>
             (case read_newline c1 w1 of
                (Inl err, c2, w2) \<Rightarrow> (Inl err, c2, w2)
              | (Inr path, c2, w2) \<Rightarrow>
                  (case read_newline c2 w2 of
                     (Inl err, c3, w3) \<Rightarrow> (Inl err, c3, w3)
                   | (Inr line, c3, w3) \<Rightarrow>
                       (case parse_pids e line of
                          Inl err \<Rightarrow> (Inl err, c3, w3)
                        | Inr pids \<Rightarrow>
                            (Inr (p\<lparr>header := JObj [(''store_as'', JStr store_as),
                                                    (''path'', JStr path),
                                                    (''pids'', pids)]\<rparr>), c3, w3)))))
      else
        (case header_get (header p) ''rid'' JNull of
           Inl err \<Rightarrow> (Inl err, c, w)
         | Inr rid \<Rightarrow> (Inr (p\<lparr>p_response_id := rid\<rparr>), c, w)))"

text \<open>
  Lines 212 to 240: with the validated \<open>dump_path\<close>, the destination is opened, the
  journal line is appended and the body is copied. The journal line is the JSON text
  of the dictionary with the keys \<open>path\<close>, \<open>filepath\<close> and \<open>pids\<close>.
\<close>

definition journal_entry :: "string \<Rightarrow> json \<Rightarrow> json \<Rightarrow> json" where
  "journal_entry dump_path path pids =
     JObj [(''path'', JStr dump_path), (''filepath'', path), (''pids'', pids)]"

definition FileUpload_write :: "env \<Rightarrow> proto \<Rightarrow> ctx \<Rightarrow> world \<Rightarrow> string \<Rightarrow> (error + unit) \<times> proto \<times> ctx \<times> world" where
  "FileUpload_write e p c w dump_path =
     (case header_get (header p) ''path'' JNull of
        Inl err \<Rightarrow> (Inl err, p, c, w)
      | Inr path \<Rightarrow>
          (case header_get (header p) ''pids'' (JArr []) of
             Inl err \<Rightarrow> (Inl err, p, c, w)
           | Inr pids \<Rightarrow>
               (let w1 = emit (Log DEBUG ''File upload'') w in
                case utf8_decode e dump_path of
                  None \<Rightarrow> (Inl UnicodeError, p, c, w1)
                | Some decoded \<Rightarrow>
                    (case open_exclusive (os_path_join (p_storagepath p) decoded) w1 of
                       (Inl err, w2) \<Rightarrow>
                         (if err = OSError EEXIST
                          then Inl (CuckooOperationalError (Overwrite (p_task_id p)))
                          else Inl err, p, c, w2)
                     | (Inr f, w2) \<Rightarrow>
                         (let p1 = p\<lparr>fd := Some f\<rparr> in
                          case append_line (filelog p1)
                                 (json_dumps e (journal_entry dump_path path pids)) w2 of
                            (Inl err, w3) \<Rightarrow> (Inl err, p1, c, w3)
                          | (Inr u, w3) \<Rightarrow>
                              (let w4 = emit (SetTimeout None) w3;
                                   (r, c5, w5) = copy_to_fd c f (Some (upload_max_size p1)) w4
                               in (r, p1, c5, emit (Log DEBUG ''uploaded file length'') w5)))))))"

text \<open>
  Lines 203 to 210: the \<open>store_as\<close> of the header is taken and validated. One that
  is true but not a string has no \<open>replace\<close> method.
\<close>

definition FileUpload_store :: "env \<Rightarrow> proto \<Rightarrow> ctx \<Rightarrow> world \<Rightarrow> (error + unit) \<times> proto \<times> ctx \<times> world" where
  "FileUpload_store e p c w =
     (case header_get (header p) ''store_as'' JNull of
        Inl err \<Rightarrow> (Inl err, p, c, w)
      | Inr store_as \<Rightarrow>
          if \<not> truthy store_as
          then (Inl (CuckooOperationalError (NoDumpPath (p_task_id p))), p, c, w)
          else
            (case store_as of
               JStr raw \<Rightarrow>
                 (case netlog_sanitize_fname raw of
                    Inl err \<Rightarrow> (Inl err, p, c, w)
                  | Inr dump_path \<Rightarrow> FileUpload_write e p c w dump_path)
             | _ \<Rightarrow> (Inl AttributeError, p, c, w)))"

definition FileUpload_handle :: "env \<Rightarrow> proto \<Rightarrow> ctx \<Rightarrow> world \<Rightarrow> (error + unit) \<times> proto \<times> ctx \<times> world" where
  "FileUpload_handle e p c w =
     (case FileUpload_header e p c (emit (SetTimeout (Some 30)) w) of
        (Inl err, c1, w1) \<Rightarrow> (Inl err, p, c1, w1)
      | (Inr p1, c1, w1) \<Rightarrow> FileUpload_store e p1 c1 w1)"

subsubsection \<open>LogHandler\<close>

text \<open>
  \<open>open_exclusive\<close> raises nothing but OSError, which \<open>init\<close> catches: the handler is
  then left without a file.
\<close>

definition LogHandler_init :: "proto \<Rightarrow> ctx \<Rightarrow> world \<Rightarrow> (error + proto) \<times> world" where
  "LogHandler_init p c w =
     (let p1 = p\<lparr>logpath := os_path_join (storagepath c) ''analysis.log''\<rparr>
      in case open_exclusive (logpath p1) w of
           (Inl err, w1) \<Rightarrow>
             (Inr p1, emit (Log DEBUG ''attempted to reopen live log analysis.log.'') w1)
         | (Inr f, w1) \<Rightarrow>
             (Inr (p1\<lparr>fd := Some f\<rparr>),
              emit (Log DEBUG ''live log analysis.log initialized.'') w1))"

definition LogHandler_handle :: "proto \<Rightarrow> ctx \<Rightarrow> world \<Rightarrow> (error + unit) \<times> proto \<times> ctx \<times> world" where
  "LogHandler_handle p c w =
     (case fd p of
        None \<Rightarrow> (Inr (), p, c, w)
      | Some f \<Rightarrow> (let (r, c1, w1) = copy_to_fd c f None w in (r, p, c1, w1)))"

subsubsection \<open>BsonStore\<close>

text \<open>\<open>"%d.bson" % pid\<close>: a number or a truth value formats, anything else raises.\<close>

fun percent_d :: "json \<Rightarrow> string option" where
  "percent_d (JInt n) = Some (show_int n)"
| "percent_d (JBool b) = Some (if b then ''1'' else ''0'')"
| "percent_d _ = None"

definition BsonStore_init :: "proto \<Rightarrow> ctx \<Rightarrow> world \<Rightarrow> (error + proto) \<times> world" where
  "BsonStore_init p c w =
     (case header_get (header p) ''pid'' JNull of
        Inl err \<Rightarrow> (Inl err, w)
      | Inr pid \<Rightarrow>
          if pid = JNull
          then (Inr (p\<lparr>fd := None\<rparr>),
                emit (Log ERROR ''Receiving BSON files without a PID parameter'') w)
          else
            (case percent_d pid of
               None \<Rightarrow> (Inl TypeError, w)
             | Some n \<Rightarrow>
                 (case open_wb (os_path_join (os_path_join (storagepath c) ''logs'')
                                  (n @ ''.bson'')) w of
                    (Inl err, w1) \<Rightarrow> (Inl err, w1)
                  | (Inr f, w1) \<Rightarrow> (Inr (p\<lparr>fd := Some f\<rparr>), w1))))"

definition BsonStore_handle :: "proto \<Rightarrow> ctx \<Rightarrow> world \<Rightarrow> (error + unit) \<times> proto \<times> ctx \<times> world" where
  "BsonStore_handle p c w =
     (let w0 = emit (Log DEBUG ''Task is sending a BSON stream'') w
      in case fd p of
           None \<Rightarrow> (Inr (), p, c, w0)
         | Some f \<Rightarrow> (let (r, c1, w1) = copy_to_fd c f None w0 in (r, p, c1, w1)))"

subsubsection \<open>RealTimeHandler\<close>

text \<open>
  Every line that \<open>read_newline\<close> returns takes at least its newline out of what the
  session still holds, which is why the loop of the handler ends.
\<close>

fun pending :: "recv_event list \<Rightarrow> nat" where
  "pending [] = 0"
| "pending (Data d # evs) = Suc (length d + pending evs)"
| "pending (Fail e # evs) = Suc (pending evs)"

definition ctx_size :: "ctx \<Rightarrow> nat" where
  "ctx_size c = (case buf c of None \<Rightarrow> 0 | Some b \<Rightarrow> length b) + pending (sock c)"

lemma find_newline_less: "find_newline b = Some pos \<Longrightarrow> pos < length b"
proof -
  assume a: "find_newline b = Some pos"
  then have mem: "CHR 0x0A \<in> set b" and pos: "pos = length (takeWhile (\<lambda>c. c \<noteq> CHR 0x0A) b)"
    by (auto simp: find_newline_def split: if_splits)
  have "length (takeWhile (\<lambda>c. c \<noteq> CHR 0x0A) b) < length b"
    using mem by (induction b) auto
  then show ?thesis using pos by simp
qed

lemma read_pending:
  "read c w = (Inr d, c', w') \<Longrightarrow> d \<noteq> [] \<Longrightarrow>
     buf c' = buf c \<and> length d + pending (sock c') < pending (sock c)"
  by (auto simp: read_def split: list.splits recv_event.splits if_splits)

lemma read_newline_shrinks:
  "read_newline c w = (Inr line, c', w') \<Longrightarrow> ctx_size c' < ctx_size c"
proof (induction c w rule: read_newline.induct)
  case (1 c w)
  show ?case
  proof (cases "buf c")
    case None
    then show ?thesis using "1.prems" by (simp add: read_newline.simps [of c w])
  next
    case (Some b)
    show ?thesis
    proof (cases "find_newline b")
      case (Some pos)
      then have "pos < length b" by (rule find_newline_less)
      then show ?thesis
        using "1.prems" \<open>buf c = Some b\<close> Some
        by (auto simp: read_newline.simps [of c w] ctx_size_def)
    next
      case None
      show ?thesis
      proof (cases "MAX_NETLOG_LINE \<le> length b")
        case True
        then show ?thesis
          using "1.prems" \<open>buf c = Some b\<close> None by (simp add: read_newline.simps [of c w])
      next
        case False
        obtain r c1 w1 where rd: "read c w = (r, c1, w1)" by (cases "read c w") auto
        show ?thesis
        proof (cases r)
          case (Inl err)
          then show ?thesis
            using "1.prems" \<open>buf c = Some b\<close> None False rd
            by (simp add: read_newline.simps [of c w])
        next
          case (Inr d)
          show ?thesis
          proof (cases "d = []")
            case True
            then show ?thesis
              using "1.prems" \<open>buf c = Some b\<close> None False rd Inr
              by (simp add: read_newline.simps [of c w])
          next
            case dne: False
            have rec: "read_newline (c1\<lparr>buf := Some (b @ d)\<rparr>) w1 = (Inr line, c', w')"
              using "1.prems" \<open>buf c = Some b\<close> None False rd Inr dne
              by (simp add: read_newline.simps [of c w])
            have "ctx_size c' < ctx_size (c1\<lparr>buf := Some (b @ d)\<rparr>)"
              using "1.IH" [OF \<open>buf c = Some b\<close> None False rd [symmetric] _ _ dne rec] Inr
              by simp
            moreover have "ctx_size (c1\<lparr>buf := Some (b @ d)\<rparr>) < ctx_size c"
              using read_pending [of c w d c1 w1] rd Inr dne \<open>buf c = Some b\<close>
              by (simp add: ctx_size_def)
            ultimately show ?thesis by simp
          qed
        qed
      qed
    qed
  qed
qed

function RealTimeHandler_loop :: "env \<Rightarrow> nat \<Rightarrow> ctx \<Rightarrow> world \<Rightarrow> (error + unit) \<times> ctx \<times> world" where
  "RealTimeHandler_loop e r c w =
     (case read_newline c w of
        (Inl err, c1, w1) \<Rightarrow> if err = EOFError then (Inr (), c1, w1) else (Inl err, c1, w1)
      | (Inr line, c1, w1) \<Rightarrow>
          (case json_loads e line of
             None \<Rightarrow> (Inl ValueError, c1, w1)
           | Some v \<Rightarrow> RealTimeHandler_loop e r c1 (emit (RtOnMessage r v) w1)))"
  by pat_completeness auto
termination
  by (relation "measure (\<lambda>(e, r, c, w). ctx_size c)") (auto dest: read_newline_shrinks [OF sym])

declare RealTimeHandler_loop.simps [simp del]

text \<open>A session whose task has no dispatcher holds \<open>None\<close>, which has no \<open>start\<close>.\<close>

definition RealTimeHandler_handle :: "env \<Rightarrow> proto \<Rightarrow> ctx \<Rightarrow> world \<Rightarrow> (error + unit) \<times> proto \<times> ctx \<times> world" where
  "RealTimeHandler_handle e p c w =
     (case rt c of
        None \<Rightarrow> (Inl AttributeError, p, c, w)
      | Some r \<Rightarrow>
          (let (res, c1, w1) = RealTimeHandler_loop e r c (emit (RtStart r (ctx_id c)) w)
           in (res, p, c1, w1)))"

subsubsection \<open>The scoped run of a handler\<close>

text \<open>
  \<open>with protocol: protocol.handle()\<close>: \<open>__enter__\<close> runs \<open>init\<close>; when \<open>init\<close> raises,
  \<open>__exit__\<close> is not run; otherwise \<open>close\<close> runs whatever \<open>handle\<close> does, and an exception
  of \<open>handle\<close> goes on.
\<close>

definition protocol_init :: "env \<Rightarrow> proto \<Rightarrow> ctx \<Rightarrow> world \<Rightarrow> (error + proto) \<times> world" where
  "protocol_init e p c w =
     (case kind p of
        FILE \<Rightarrow> (Inr (FileUpload_init e p c), w)
      | LOG \<Rightarrow> LogHandler_init p c w
      | BSON \<Rightarrow> BsonStore_init p c w
      | REALTIME \<Rightarrow> (Inr p, w))"

definition protocol_handle :: "env \<Rightarrow> proto \<Rightarrow> ctx \<Rightarrow> world \<Rightarrow> (error + unit) \<times> proto \<times> ctx \<times> world" where
  "protocol_handle e p c w =
     (case kind p of
        FILE \<Rightarrow> FileUpload_handle e p c w
      | LOG \<Rightarrow> LogHandler_handle p c w
      | BSON \<Rightarrow> BsonStore_handle p c w
      | REALTIME \<Rightarrow> RealTimeHandler_handle e p c w)"

definition with_protocol :: "env \<Rightarrow> proto \<Rightarrow> ctx \<Rightarrow> world \<Rightarrow> (error + unit) \<times> proto \<times> ctx \<times> world" where
  "with_protocol e p c w =
     (case protocol_init e p c w of
        (Inl err, w1) \<Rightarrow> (Inl err, p, c, w1)
      | (Inr p1, w1) \<Rightarrow>
          (let (r, p2, c2, w2) = protocol_handle e p1 c w1 in (r, close p2, c2, w2)))"

subsection \<open>GeventResultServerWorker\<close>

definition commands :: "string \<Rightarrow> cmd option" where
  "commands name =
     (if name = ''BSON'' then Some BSON
      else if name = ''FILE'' then Some FILE
      else if name = ''LOG'' then Some LOG
      else if name = ''REALTIME'' then Some REALTIME
      else None)"

definition add_task :: "int \<Rightarrow> string \<Rightarrow> nat \<Rightarrow> world \<Rightarrow> world" where
  "add_task tid ipaddr rt_handler w =
     (let w1 = emit Acquire w;
          w2 = emit (RegWrite ''tasks'') (w1\<lparr>tasks := (tasks w1)(ipaddr \<mapsto> tid)\<rparr>);
          w3 = emit (RegWrite ''rthandlers'') (w2\<lparr>rthandlers := (rthandlers w2)(tid \<mapsto> rt_handler)\<rparr>)
      in emit Release w3)"

text \<open>
  \<open>del_task\<close>. The three \<open>pop\<close> calls and the loop that cancels the handlers are the
  body of the one \<open>with self.task_mgmt_lock\<close> block; \<open>rthandlers.pop(task_id)\<close> has no
  default and raises KeyError on a task that is not there, which leaves the block and
  releases the lock.
\<close>

definition cancel_all :: "int \<Rightarrow> nat list \<Rightarrow> world \<Rightarrow> world" where
  "cancel_all tid ctxs w = foldl (\<lambda>w cid. cancel cid (emit (Log WARNING ''Cancel for task'') w)) w ctxs"

definition del_task :: "int \<Rightarrow> string \<Rightarrow> world \<Rightarrow> (error + unit) \<times> world" where
  "del_task tid ipaddr w =
     (let w1 = emit Acquire w;
          w2 = emit (RegWrite ''tasks'') (w1\<lparr>tasks := (tasks w1)(ipaddr := None)\<rparr>);
          w3 = (if tasks w1 ipaddr = None
                then emit (Log WARNING ''ResultServer did not have a task with ID'') w2
                else w2);
          w4 = emit (RegWrite ''rthandlers'') w3
      in case rthandlers w4 tid of
           None \<Rightarrow> (Inl KeyError, emit Release w4)
         | Some r \<Rightarrow>
             (let w5 = w4\<lparr>rthandlers := (rthandlers w4)(tid := None)\<rparr>;
                  ctxs = (case handlers w5 tid of None \<Rightarrow> [] | Some s \<Rightarrow> s);
                  w6 = emit (RegWrite ''handlers'') (w5\<lparr>handlers := (handlers w5)(tid := None)\<rparr>);
                  w7 = cancel_all tid ctxs w6
              in (Inr (), emit Release w7)))"

text \<open>
  \<open>negotiate_protocol\<close> returns \<open>None\<close> for a command it does not know and for a
  header that is no JSON.
\<close>

definition negotiate_protocol :: "env \<Rightarrow> int \<Rightarrow> ctx \<Rightarrow> world \<Rightarrow> (error + proto option) \<times> ctx \<times> world" where
  "negotiate_protocol e tid c w =
     (case read_newline c w of
        (Inl err, c1, w1) \<Rightarrow> (Inl err, c1, w1)
      | (Inr line, c1, w1) \<Rightarrow>
          (let (cmd_name, rest) = split_once line
           in case commands cmd_name of
                None \<Rightarrow>
                  (Inr None, c1,
                   emit (Log WARNING ''unknown netlog protocol requested, terminating connection.'') w1)
              | Some klass \<Rightarrow>
                  (case rest of
                     None \<Rightarrow>
                       (Inr (Some (ProtocolHandler_init klass tid JNull)),
                        c1\<lparr>command := Some cmd_name\<rparr>, w1)
                   | Some text \<Rightarrow>
                       (case json_loads e text of
                          None \<Rightarrow> (Inr None, c1, emit (Log ERROR ''invalid netlog header'') w1)
                        | Some data \<Rightarrow>
                            (Inr (Some (ProtocolHandler_init klass tid
                                     (if cmd_name = ''BSON'' \<and> take 1 text \<noteq> ''{''
                                      then JObj [(''pid'', data)] else data))),
                             c1\<lparr>command := Some cmd_name\<rparr>, w1)))))"

text \<open>
  \<open>handle\<close>, from the negotiation on (lines 381 to 414). \<open>meanwhile\<close> is what the other
  threads do to the state while this connection negotiates: the task may be deleted
  and another one registered for the address. Entering \<open>with\<close> on \<open>None\<close> raises
  AttributeError (TypeError from Python 3.11 on). The worker has no attribute \<open>rt\<close>:
  reading \<open>self.rt\<close> in the \<open>finally\<close> block raises AttributeError, which replaces the
  exception under way and skips the rest of the block.
\<close>

definition register_ctx :: "int \<Rightarrow> nat \<Rightarrow> world \<Rightarrow> world" where
  "register_ctx tid cid w =
     emit (RegWrite ''handlers'')
       (w\<lparr>handlers := (handlers w)(tid \<mapsto>
            List.insert cid (case handlers w tid of None \<Rightarrow> [] | Some s \<Rightarrow> s))\<rparr>)"

definition discard_ctx :: "int \<Rightarrow> nat \<Rightarrow> world \<Rightarrow> world" where
  "discard_ctx tid cid w =
     emit (RegWrite ''handlers'')
       (case handlers w tid of
          None \<Rightarrow> w
        | Some s \<Rightarrow> w\<lparr>handlers := (handlers w)(tid \<mapsto> removeAll cid s)\<rparr>)"

definition handle_finally :: "nat \<Rightarrow> int \<Rightarrow> (error + unit) \<Rightarrow> ctx \<Rightarrow> world \<Rightarrow> (error + unit) \<times> world" where
  "handle_finally cid tid r c w =
     (if response_id c \<noteq> JNull then (Inl AttributeError, w)
      else
        (let w1 = emit Release (discard_ctx tid cid (emit Acquire w));
             w2 = cancel cid w1;
             w3 = (case buf c of
                     None \<Rightarrow> w2
                   | Some b \<Rightarrow>
                       if b \<noteq> []
                       then emit (Log WARNING ''unprocessed data before getting disconnected'') w2
                       else w2)
         in (r, w3)))"

definition handle_session :: "env \<Rightarrow> (world \<Rightarrow> world) \<Rightarrow> ctx \<Rightarrow> string \<Rightarrow> world \<Rightarrow> (error + unit) \<times> world" where
  "handle_session e meanwhile c ipaddr w =
     (case negotiate_protocol e (task_id c) c w of
        (Inl err, c1, w1) \<Rightarrow> if err = EOFError then (Inr (), w1) else (Inl err, w1)
      | (Inr protocol, c1, w1) \<Rightarrow>
          (let w2 = emit Acquire (meanwhile w1)
           in if tasks w2 ipaddr \<noteq> Some (task_id c)
              then (Inr (),
                    emit Release (emit (Log WARNING ''Task was cancelled during negotiation'') w2))
              else
                (let w3 = emit Release (register_ctx (task_id c) (ctx_id c) w2)
                 in case protocol of
                      None \<Rightarrow> handle_finally (ctx_id c) (task_id c) (Inl AttributeError) c1 w3
                    | Some p \<Rightarrow>
                        (let (r, p1, c2, w4) = with_protocol e p c1 w3
                         in handle_finally (ctx_id c) (task_id c) r c2 w4))))"

text \<open>
  \<open>handle(sock, addr)\<close>. \<open>cid\<close> is the identity of the HandlerContext that the call
  creates. \<open>if not task_id\<close> is true of a missing entry and of the task id 0 alike.
\<close>

definition handle :: "env \<Rightarrow> nat \<Rightarrow> (world \<Rightarrow> world) \<Rightarrow> recv_event list \<Rightarrow> string \<Rightarrow> world \<Rightarrow> (error + unit) \<times> world" where
  "handle e cid meanwhile sk ipaddr w =
     (let w1 = emit Acquire w
      in case tasks w1 ipaddr of
           None \<Rightarrow>
             (Inr (), emit Release
                        (emit (Log WARNING ''ResultServer did not have a task for IP'') w1))
         | Some tid \<Rightarrow>
             if tid = 0
             then (Inr (), emit Release
                             (emit (Log WARNING ''ResultServer did not have a task for IP'') w1))
             else
               (let r = rthandlers w1 tid;
                    w2 = emit Release w1;
                    c = HandlerContext_init cid tid (cwd e tid) sk r;
                    w3 = emit (TaskLogStart tid) w2;
                    (res, w4) = handle_session e meanwhile c ipaddr w3
                in (res, emit (TaskLogStop tid) w4)))"

subsection \<open>Reading the events\<close>

text \<open>
  \<open>new_events w w'\<close> are the events of a run from \<open>w\<close> to \<open>w'\<close>. \<open>under_lock P held es\<close>
  says that every event of \<open>es\<close> with \<open>P\<close> happens while the lock is held, \<open>held\<close> telling
  whether it is held at the start; \<open>outside_lock\<close> says that every such event happens
  while it is not held.
\<close>

definition new_events :: "world \<Rightarrow> world \<Rightarrow> event list" where
  "new_events w w' = drop (length (trace w)) (trace w')"

fun under_lock :: "(event \<Rightarrow> bool) \<Rightarrow> bool \<Rightarrow> event list \<Rightarrow> bool" where
  "under_lock P held [] = True"
| "under_lock P held (Acquire # es) = under_lock P True es"
| "under_lock P held (Release # es) = under_lock P False es"
| "under_lock P held (ev # es) = ((if P ev then held else True) \<and> under_lock P held es)"

fun outside_lock :: "(event \<Rightarrow> bool) \<Rightarrow> bool \<Rightarrow> event list \<Rightarrow> bool" where
  "outside_lock P held [] = True"
| "outside_lock P held (Acquire # es) = outside_lock P True es"
| "outside_lock P held (Release # es) = outside_lock P False es"
| "outside_lock P held (ev # es) = ((if P ev then \<not> held else True) \<and> outside_lock P held es)"

fun is_cancel :: "event \<Rightarrow> bool" where
  "is_cancel (Cancel cid) = True"
| "is_cancel _ = False"

fun is_reg_write :: "event \<Rightarrow> bool" where
  "is_reg_write (RegWrite d) = True"
| "is_reg_write _ = False"



subsection \<open>Example values\<close>

text \<open>
  A server with nothing registered and an empty file system, and a host whose JSON
  parser knows the headers used in the examples below.
\<close>

definition world0 :: world where
  "world0 = \<lparr>tasks = Map.empty, rthandlers = Map.empty, handlers = Map.empty,
             fs = Map.empty, open_errors = Map.empty, trace = []\<rparr>"

definition example_loads :: "string \<Rightarrow> json option" where
  \<open>example_loads s =
     (if s = ''{"store_as": "shots/0001.jpg"}''
      then Some (JObj [(''store_as'', JStr ''shots/0001.jpg'')])
      else if s = ''{"store_as": "shots/0001.jpg", "rid": 1}''
      then Some (JObj [(''store_as'', JStr ''shots/0001.jpg''), (''rid'', JInt 1)])
      else None)\<close>

definition env0 :: env where
  "env0 = \<lparr>json_loads = example_loads,
            json_dumps = (\<lambda>j. ''{}''),
            py_int = (\<lambda>s. None),
            utf8_decode = Some,
            config_upload_max_size = 10,
            cwd = (\<lambda>tid. ''/analyses/'' @ show_int tid)\<rparr>"


subsection \<open>What a body transfer receives\<close>




fun sink_fd :: "sink \<Rightarrow> string" where
  "sink_fd (Plain f) = f"
| "sink_fd (Limited l) = lim_fd l"

subsection \<open>Frames\<close>

text \<open>
  \<open>writes_only P w w'\<close>: from \<open>w\<close> to \<open>w'\<close> the registry and the paths that cannot be
  opened are as they were, no file has gone, and files outside \<open>P\<close> have their old
  content. \<open>same_session c c'\<close>: the session has changed in its socket and its buffer
  at most.
\<close>

definition writes_only :: "string set \<Rightarrow> world \<Rightarrow> world \<Rightarrow> bool" where
  "writes_only P w w' =
     (tasks w' = tasks w \<and> rthandlers w' = rthandlers w \<and> handlers w' = handlers w
      \<and> open_errors w' = open_errors w
      \<and> dom (fs w) \<subseteq> dom (fs w')
      \<and> (\<forall>p. p \<notin> P \<longrightarrow> fs w' p = fs w p))"

definition same_session :: "ctx \<Rightarrow> ctx \<Rightarrow> bool" where
  "same_session c c' =
     (ctx_id c' = ctx_id c \<and> task_id c' = task_id c \<and> command c' = command c
      \<and> rt c' = rt c \<and> response_id c' = response_id c \<and> storagepath c' = storagepath c)"

text \<open>The handlers that the registry holds for a task.\<close>

definition sessions_of :: "world \<Rightarrow> int \<Rightarrow> nat list" where
  "sessions_of w tid = (case handlers w tid of None \<Rightarrow> [] | Some s \<Rightarrow> s)"

text \<open>
  A session of task 7 with the given socket, and the handler of a version 3 FILE
  upload with the given header, after \<open>init\<close>.
\<close>

definition example_ctx :: "recv_event list \<Rightarrow> ctx" where
  "example_ctx sk = HandlerContext_init 1 7 ''/analyses/7'' sk (Some 0)"

definition example_upload :: "json \<Rightarrow> proto" where
  "example_upload hdr = FileUpload_init env0 (ProtocolHandler_init FILE 7 hdr) (example_ctx [])"



section \<open>Properties\<close>

subsection \<open>Accepted paths\<close>








lemmas sanitize_eval =
  netlog_sanitize_fname_def replace_backslash_def os_path_split_def rstrip_slash_def
  split_last_slash_def RESULT_UPLOADABLE_def BANNED_PATH_CHARS_def



subsection \<open>Overlong lines and the end of the stream\<close>









subsection \<open>What the reading and copying functions leave alone\<close>

lemma writes_only_refl: "writes_only P w w"
  by (simp add: writes_only_def)

lemma writes_only_trans:
  assumes "writes_only P w w1" and "writes_only Q w1 w2"
  shows "writes_only (P \<union> Q) w w2"
proof -
  have "dom (fs w) \<subseteq> dom (fs w2)"
    using assms unfolding writes_only_def by (meson subset_trans)
  moreover have "\<forall>p. p \<notin> P \<union> Q \<longrightarrow> fs w2 p = fs w p"
    using assms unfolding writes_only_def by simp
  ultimately show ?thesis using assms unfolding writes_only_def by simp
qed

lemma writes_only_mono: "writes_only P w w' \<Longrightarrow> P \<subseteq> Q \<Longrightarrow> writes_only Q w w'"
  by (auto simp: writes_only_def)

lemma writes_only_emit: "writes_only P w w' \<Longrightarrow> writes_only P w (emit ev w')"
  by (simp add: writes_only_def emit_def)

lemma writes_only_emit_left: "writes_only P w w' \<Longrightarrow> writes_only P (emit ev w) w'"
  by (simp add: writes_only_def emit_def)

lemma writes_only_empty_fs: "writes_only {} w w' \<Longrightarrow> fs w' = fs w"
  by (auto simp: writes_only_def)

lemma writes_only_fd_write: "writes_only {f} w (fd_write f d w)"
  by (auto simp: writes_only_def fd_write_def)

lemma same_session_refl: "same_session c c"
  by (simp add: same_session_def)

lemma same_session_trans: "same_session c c1 \<Longrightarrow> same_session c1 c2 \<Longrightarrow> same_session c c2"
  by (simp add: same_session_def)

lemma same_session_buf: "same_session c c' \<Longrightarrow> same_session c (c'\<lparr>buf := b\<rparr>)"
  by (simp add: same_session_def)

lemma read_frame:
  assumes "read c w = (r, c', w')"
  shows "writes_only {} w w'" and "same_session c c'" and "buf c' = buf c"
  using assms
  by (auto simp: read_def writes_only_def same_session_def emit_def
           split: list.splits recv_event.splits if_splits)

lemma read_newline_frame:
  "read_newline c w = (r, c', w') \<Longrightarrow> writes_only {} w w' \<and> same_session c c'"
proof (induction c w rule: read_newline.induct)
  case (1 c w)
  show ?case
  proof (cases "buf c")
    case None
    then show ?thesis using "1.prems"
      by (simp add: read_newline.simps [of c w] writes_only_refl same_session_refl)
  next
    case (Some b)
    show ?thesis
    proof (cases "find_newline b")
      case (Some pos)
      then show ?thesis using "1.prems" \<open>buf c = Some b\<close>
        by (auto simp: read_newline.simps [of c w] writes_only_refl same_session_def)
    next
      case None
      show ?thesis
      proof (cases "MAX_NETLOG_LINE \<le> length b")
        case True
        then show ?thesis using "1.prems" \<open>buf c = Some b\<close> None
          by (simp add: read_newline.simps [of c w] writes_only_refl same_session_refl)
      next
        case False
        obtain r1 c1 w1 where rd: "read c w = (r1, c1, w1)" by (cases "read c w") auto
        note fr = read_frame [OF rd]
        show ?thesis
        proof (cases r1)
          case (Inl err)
          then show ?thesis using "1.prems" \<open>buf c = Some b\<close> None False rd fr
            by (auto simp: read_newline.simps [of c w])
        next
          case (Inr d)
          show ?thesis
          proof (cases "d = []")
            case True
            then show ?thesis using "1.prems" \<open>buf c = Some b\<close> None False rd fr Inr
              by (auto simp: read_newline.simps [of c w])
          next
            case dne: False
            have rec: "read_newline (c1\<lparr>buf := Some (b @ d)\<rparr>) w1 = (r, c', w')"
              using "1.prems" \<open>buf c = Some b\<close> None False rd Inr dne
              by (simp add: read_newline.simps [of c w])
            have ih: "writes_only {} w1 w' \<and> same_session (c1\<lparr>buf := Some (b @ d)\<rparr>) c'"
              using "1.IH" [OF \<open>buf c = Some b\<close> None False rd [symmetric] _ _ dne rec] Inr
              by simp
            have "writes_only ({} \<union> {}) w w'"
              using fr(1) ih by (blast intro: writes_only_trans)
            moreover have "same_session c c'"
              using same_session_trans [OF same_session_buf [OF fr(2)]] ih by blast
            ultimately show ?thesis by simp
          qed
        qed
      qed
    qed
  qed
qed

lemma sink_write_frame:
  assumes "sink_write s d w = (s', w')"
  shows "writes_only {sink_fd s} w w'" and "sink_fd s' = sink_fd s"
  using assms
  by (cases s; auto simp: WriteLimiter_write_def Let_def writes_only_def fd_write_def emit_def
        split: if_splits prod.splits)+

lemma copy_loop_frame:
  "copy_loop c s w = (r, c', s', w') \<Longrightarrow>
     writes_only {sink_fd s} w w' \<and> same_session c c' \<and> buf c' = buf c"
proof (induction c s w rule: copy_loop.induct)
  case (1 c s w)
  obtain r1 c1 w1 where rd: "read c w = (r1, c1, w1)" by (cases "read c w") auto
  note fr = read_frame [OF rd]
  have base: "writes_only {sink_fd s} w w1"
    using fr(1) by (rule writes_only_mono) simp
  show ?case
  proof (cases r1)
    case (Inl err)
    then show ?thesis using "1.prems" rd fr base by (auto simp: copy_loop.simps [of c s w])
  next
    case (Inr d)
    show ?thesis
    proof (cases "d = []")
      case True
      then show ?thesis using "1.prems" rd fr base Inr by (auto simp: copy_loop.simps [of c s w])
    next
      case dne: False
      obtain s2 w2 where sw: "sink_write s d w1 = (s2, w2)" by (cases "sink_write s d w1") auto
      note sf = sink_write_frame [OF sw]
      have rec: "copy_loop c1 s2 w2 = (r, c', s', w')"
        using "1.prems" rd Inr dne sw by (simp add: copy_loop.simps [of c s w])
      have ih: "writes_only {sink_fd s2} w2 w' \<and> same_session c1 c' \<and> buf c' = buf c1"
        using "1.IH" [OF rd [symmetric] _ _ dne sw [symmetric] _ rec] Inr by simp
      have "writes_only ({sink_fd s} \<union> {sink_fd s}) w w2"
        using base sf(1) by (rule writes_only_trans)
      then have "writes_only ({sink_fd s} \<union> {sink_fd s} \<union> {sink_fd s}) w w'"
        using ih sf(2) by (metis writes_only_trans)
      then have "writes_only {sink_fd s} w w'" by simp
      then show ?thesis using ih fr same_session_trans by auto
    qed
  qed
qed

lemma copy_to_fd_frame:
  assumes "copy_to_fd c f m w = (r, c', w')"
  shows "writes_only {f} w w'" and "same_session c c'"
proof -
  have sfd: "sink_fd (make_sink f m) = f"
    by (simp add: make_sink_def split: option.splits)
  show "writes_only {f} w w'"
  proof (cases "buf c")
    case None
    then show ?thesis using assms by (simp add: copy_to_fd_def drain_buffer_def writes_only_refl)
  next
    case (Some b)
    obtain s1 w1 where sw: "sink_write (make_sink f m) b w = (s1, w1)"
      by (cases "sink_write (make_sink f m) b w") auto
    obtain r2 c2 s2 w2 where cl: "copy_loop (c\<lparr>buf := None\<rparr>) s1 w1 = (r2, c2, s2, w2)"
      by (cases "copy_loop (c\<lparr>buf := None\<rparr>) s1 w1") auto
    have "w' = w2" using assms Some sw cl by (simp add: copy_to_fd_def drain_buffer_def)
    moreover have "writes_only ({f} \<union> {f}) w w2"
      using sink_write_frame [OF sw] copy_loop_frame [OF cl] sfd
      by (metis writes_only_trans)
    ultimately show ?thesis by simp
  qed
  show "same_session c c'"
  proof (cases "buf c")
    case None
    then show ?thesis using assms by (auto simp: copy_to_fd_def drain_buffer_def same_session_def)
  next
    case (Some b)
    obtain s1 w1 where sw: "sink_write (make_sink f m) b w = (s1, w1)"
      by (cases "sink_write (make_sink f m) b w") auto
    obtain r2 c2 s2 w2 where cl: "copy_loop (c\<lparr>buf := None\<rparr>) s1 w1 = (r2, c2, s2, w2)"
      by (cases "copy_loop (c\<lparr>buf := None\<rparr>) s1 w1") auto
    have "c' = c2" using assms Some sw cl by (simp add: copy_to_fd_def drain_buffer_def)
    moreover have "same_session (c\<lparr>buf := None\<rparr>) c2" using copy_loop_frame [OF cl] by simp
    ultimately show ?thesis by (simp add: same_session_def)
  qed
qed

subsection \<open>The size cap\<close>









subsection \<open>Deleting a task\<close>

lemma cancel_all_trace:
  "cancel_all tid ctxs w =
     w\<lparr>trace := trace w @ concat (map (\<lambda>cid. [Log WARNING ''Cancel for task'', Cancel cid]) ctxs)\<rparr>"
  unfolding cancel_all_def
  by (induction ctxs arbitrary: w) (simp_all add: cancel_def emit_def)

lemma under_lock_plain:
  assumes "Acquire \<notin> set xs" and "Release \<notin> set xs"
  shows "under_lock P held (xs @ ys) = ((\<forall>ev\<in>set xs. P ev \<longrightarrow> held) \<and> under_lock P held ys)"
  using assms
proof (induction xs)
  case Nil
  then show ?case by simp
next
  case (Cons x xs)
  then show ?case by (cases x) auto
qed

lemma cancel_events_plain:
  "Acquire \<notin> set (concat (map (\<lambda>cid. [Log WARNING ''Cancel for task'', Cancel cid]) ctxs))"
  "Release \<notin> set (concat (map (\<lambda>cid. [Log WARNING ''Cancel for task'', Cancel cid]) ctxs))"
  by auto

lemma del_task_eq:
  "del_task tid ipaddr w =
     (case rthandlers w tid of
        None \<Rightarrow>
          (Inl KeyError,
           w\<lparr>tasks := (tasks w)(ipaddr := None),
             trace := trace w @ [Acquire, RegWrite ''tasks'']
               @ (if tasks w ipaddr = None
                  then [Log WARNING ''ResultServer did not have a task with ID''] else [])
               @ [RegWrite ''rthandlers'', Release]\<rparr>)
      | Some r \<Rightarrow>
          (Inr (),
           w\<lparr>tasks := (tasks w)(ipaddr := None),
             rthandlers := (rthandlers w)(tid := None),
             handlers := (handlers w)(tid := None),
             trace := trace w @ [Acquire, RegWrite ''tasks'']
               @ (if tasks w ipaddr = None
                  then [Log WARNING ''ResultServer did not have a task with ID''] else [])
               @ [RegWrite ''rthandlers'', RegWrite ''handlers'']
               @ concat (map (\<lambda>cid. [Log WARNING ''Cancel for task'', Cancel cid])
                           (sessions_of w tid))
               @ [Release]\<rparr>))"
  by (auto simp: del_task_def Let_def emit_def cancel_all_trace sessions_of_def
        split: option.splits)

text \<open>
  C8, as the code has it. In every execution of \<open>del_task\<close> the events start with
  taking the lock and end with releasing it, with no release in between; every write
  to a registry dictionary and every \<open>cancel\<close> happens while the lock is held. The call
  returns normally exactly when the task has a dispatcher registered, and then the
  three entries are gone and every handler that was registered for the task has been
  cancelled, under the lock.
\<close>

theorem del_task_cancels_under_lock:
  "hd (new_events w (snd (del_task tid ipaddr w))) = Acquire
   \<and> last (new_events w (snd (del_task tid ipaddr w))) = Release
   \<and> Release \<notin> set (butlast (new_events w (snd (del_task tid ipaddr w))))
   \<and> under_lock (\<lambda>ev. is_reg_write ev \<or> is_cancel ev) False
        (new_events w (snd (del_task tid ipaddr w)))
   \<and> (fst (del_task tid ipaddr w) = Inr () \<longleftrightarrow> rthandlers w tid \<noteq> None)
   \<and> (fst (del_task tid ipaddr w) = Inr () \<longrightarrow>
        tasks (snd (del_task tid ipaddr w)) ipaddr = None
        \<and> rthandlers (snd (del_task tid ipaddr w)) tid = None
        \<and> handlers (snd (del_task tid ipaddr w)) tid = None
        \<and> (\<forall>cid\<in>set (sessions_of w tid).
              Cancel cid \<in> set (new_events w (snd (del_task tid ipaddr w)))))"
proof (cases "rthandlers w tid")
  case None
  then show ?thesis
    by (simp add: del_task_eq new_events_def butlast_append)
next
  case (Some r)
  let ?cs = "concat (map (\<lambda>cid. [Log WARNING ''Cancel for task'', Cancel cid]) (sessions_of w tid))"
  let ?warn = "if tasks w ipaddr = None
               then [Log WARNING ''ResultServer did not have a task with ID''] else []"
  have ev: "new_events w (snd (del_task tid ipaddr w)) =
      [Acquire, RegWrite ''tasks''] @ ?warn @ [RegWrite ''rthandlers'', RegWrite ''handlers'']
        @ ?cs @ [Release]"
    using Some by (simp add: del_task_eq new_events_def)
  have bl: "butlast ([Acquire, RegWrite ''tasks''] @ ?warn
        @ [RegWrite ''rthandlers'', RegWrite ''handlers''] @ ?cs @ [Release]) =
      [Acquire, RegWrite ''tasks''] @ ?warn @ [RegWrite ''rthandlers'', RegWrite ''handlers''] @ ?cs"
    by (simp add: butlast_append)
  have ul: "under_lock (\<lambda>ev. is_reg_write ev \<or> is_cancel ev) True (?cs @ [Release])"
    using under_lock_plain [where xs = ?cs and ys = "[Release]" and held = True
        and P = "\<lambda>ev. is_reg_write ev \<or> is_cancel ev"] cancel_events_plain
    by simp
  have 1: "hd (new_events w (snd (del_task tid ipaddr w))) = Acquire" using ev by simp
  have 2: "last (new_events w (snd (del_task tid ipaddr w))) = Release" using ev by simp
  have 3: "Release \<notin> set (butlast (new_events w (snd (del_task tid ipaddr w))))"
    unfolding ev bl by auto
  have 4: "under_lock (\<lambda>ev. is_reg_write ev \<or> is_cancel ev) False
        (new_events w (snd (del_task tid ipaddr w)))"
    unfolding ev using ul by simp
  have 5: "\<forall>cid\<in>set (sessions_of w tid).
              Cancel cid \<in> set (new_events w (snd (del_task tid ipaddr w)))"
    unfolding ev by auto
  show ?thesis using 1 2 3 4 5 Some by (simp add: del_task_eq)
qed

theorem del_task_cancels_under_lock_witness:
  "new_events (world0\<lparr>tasks := [''10.0.0.5'' \<mapsto> 7], rthandlers := [7 \<mapsto> 0],
                      handlers := [7 \<mapsto> [1]]\<rparr>)
     (snd (del_task 7 ''10.0.0.5''
        (world0\<lparr>tasks := [''10.0.0.5'' \<mapsto> 7], rthandlers := [7 \<mapsto> 0],
                handlers := [7 \<mapsto> [1]]\<rparr>)))
     = [Acquire, RegWrite ''tasks'', RegWrite ''rthandlers'', RegWrite ''handlers'',
        Log WARNING ''Cancel for task'', Cancel 1, Release]
   \<and> fst (del_task 7 ''10.0.0.5''
        (world0\<lparr>tasks := [''10.0.0.5'' \<mapsto> 7], rthandlers := [7 \<mapsto> 0],
                handlers := [7 \<mapsto> [1]]\<rparr>)) = Inr ()
   \<and> handlers (snd (del_task 7 ''10.0.0.5''
        (world0\<lparr>tasks := [''10.0.0.5'' \<mapsto> 7], rthandlers := [7 \<mapsto> 0],
                handlers := [7 \<mapsto> [1]]\<rparr>))) 7 = None
   \<and> Cancel 1 \<in> set (new_events (world0\<lparr>tasks := [''10.0.0.5'' \<mapsto> 7], rthandlers := [7 \<mapsto> 0],
                      handlers := [7 \<mapsto> [1]]\<rparr>)
     (snd (del_task 7 ''10.0.0.5''
        (world0\<lparr>tasks := [''10.0.0.5'' \<mapsto> 7], rthandlers := [7 \<mapsto> 0],
                handlers := [7 \<mapsto> [1]]\<rparr>))))"
  using del_task_cancels_under_lock [of
      "world0\<lparr>tasks := [''10.0.0.5'' \<mapsto> 7], rthandlers := [7 \<mapsto> 0], handlers := [7 \<mapsto> [1]]\<rparr>"
      7 "''10.0.0.5''"]
  by (simp add: del_task_eq new_events_def world0_def sessions_of_def)

text \<open>
  C8, as the claim states it, fails: with one handler registered for the task,
  \<open>cancel\<close> is called on it before the lock is released.
\<close>

theorem del_task_cancel_outside_lock_counterexample:
  "\<not> outside_lock is_cancel False
       (new_events (world0\<lparr>tasks := [''10.0.0.5'' \<mapsto> 7], rthandlers := [7 \<mapsto> 0],
                      handlers := [7 \<mapsto> [1]]\<rparr>)
          (snd (del_task 7 ''10.0.0.5''
             (world0\<lparr>tasks := [''10.0.0.5'' \<mapsto> 7], rthandlers := [7 \<mapsto> 0],
                     handlers := [7 \<mapsto> [1]]\<rparr>))))"
  by (simp add: del_task_eq new_events_def world0_def sessions_of_def)

text \<open>
  C5 fails on the code. Whatever the first call of \<open>del_task\<close> did, a second call with
  the same arguments raises KeyError: \<open>rthandlers.pop(task_id)\<close> has no default. In
  particular this is so after a first call that returned normally, as for a task
  that was registered with \<open>add_task\<close>.
\<close>

theorem del_task_twice_raises:
  "fst (del_task tid ipaddr (snd (del_task tid ipaddr w))) = Inl KeyError
   \<and> fst (del_task 7 ''10.0.0.5'' (add_task 7 ''10.0.0.5'' 0 world0)) = Inr ()
   \<and> fst (del_task 7 ''10.0.0.5''
         (snd (del_task 7 ''10.0.0.5'' (add_task 7 ''10.0.0.5'' 0 world0)))) = Inl KeyError"
  by (simp add: del_task_eq add_task_def emit_def Let_def world0_def split: option.splits)

subsection \<open>The task id 0\<close>

text \<open>
  C10. An address registered with the task id 0 is served like one that is not
  registered: \<open>handle\<close> logs the warning under the lock and returns; it creates no
  session, registers no handler and touches no file. The state after the call is the
  state before it with the three events added, in both cases.
\<close>

theorem handle_task_id_zero:
  "handle e cid meanwhile sk ipaddr (add_task 0 ipaddr r w) =
     (Inr (), (add_task 0 ipaddr r w)
        \<lparr>trace := trace (add_task 0 ipaddr r w)
           @ [Acquire, Log WARNING ''ResultServer did not have a task for IP'', Release]\<rparr>)
   \<and> (tasks w ipaddr = Some 0 \<or> tasks w ipaddr = None \<longrightarrow>
        handle e cid meanwhile sk ipaddr w =
          (Inr (), w\<lparr>trace := trace w
             @ [Acquire, Log WARNING ''ResultServer did not have a task for IP'', Release]\<rparr>))"
  by (auto simp: handle_def add_task_def emit_def Let_def)

theorem handle_task_id_zero_witness:
  "handle env0 1 id [Data ''LOG'', Data [CHR 0x0A]] ''10.0.0.5'' (world0\<lparr>tasks := [''10.0.0.5'' \<mapsto> 0]\<rparr>) =
     (Inr (), world0\<lparr>tasks := [''10.0.0.5'' \<mapsto> 0],
        trace := [Acquire, Log WARNING ''ResultServer did not have a task for IP'', Release]\<rparr>)
   \<and> handle env0 1 id [Data ''LOG'', Data [CHR 0x0A]] ''10.0.0.5'' world0 =
     (Inr (), world0\<lparr>trace :=
        [Acquire, Log WARNING ''ResultServer did not have a task for IP'', Release]\<rparr>)"
  using handle_task_id_zero [of env0 1 id "[Data ''LOG'', Data [CHR 0x0A]]" "''10.0.0.5''" 0
          "world0\<lparr>tasks := [''10.0.0.5'' \<mapsto> 0]\<rparr>"]
        handle_task_id_zero [of env0 1 id "[Data ''LOG'', Data [CHR 0x0A]]" "''10.0.0.5''" 0 world0]
  by (simp add: world0_def)

subsection \<open>File uploads\<close>

lemma FileUpload_header_frame:
  assumes "FileUpload_header e p c w = (r, c', w')"
  shows "writes_only {} w w'" and "same_session c c'"
    and "r = Inr p1 \<Longrightarrow> fd p1 = fd p \<and> p_storagepath p1 = p_storagepath p \<and> filelog p1 = filelog p
           \<and> upload_max_size p1 = upload_max_size p \<and> p_task_id p1 = p_task_id p
           \<and> kind p1 = kind p"
proof -
  have rn: "\<And>c w r c' w'. read_newline c w = (r, c', w') \<Longrightarrow> writes_only {} w w' \<and> same_session c c'"
    by (rule read_newline_frame)
  have tr: "\<And>a b c. writes_only {} a b \<Longrightarrow> writes_only {} b c \<Longrightarrow> writes_only {} a c"
    using writes_only_trans [of "{}" _ _ "{}"] by simp
  show "writes_only {} w w'"
    using assms
    by (auto simp: FileUpload_header_def writes_only_refl
          split: if_splits prod.splits sum.splits dest!: rn intro: tr)
  show "same_session c c'"
    using assms
    by (auto simp: FileUpload_header_def same_session_refl
          split: if_splits prod.splits sum.splits dest!: rn intro: same_session_trans)
  show "r = Inr p1 \<Longrightarrow> fd p1 = fd p \<and> p_storagepath p1 = p_storagepath p \<and> filelog p1 = filelog p
           \<and> upload_max_size p1 = upload_max_size p \<and> p_task_id p1 = p_task_id p
           \<and> kind p1 = kind p"
    using assms
    by (auto simp: FileUpload_header_def split: if_splits prod.splits sum.splits)
qed

subsection \<open>The store phase of a file upload\<close>

lemma read_error: "read c w = (Inl err, c', w') \<Longrightarrow> \<exists>e. err = SocketError e"
  by (auto simp: read_def split: list.splits recv_event.splits if_splits)

lemma copy_loop_error:
  "copy_loop c s w = (Inl err, c', s', w') \<Longrightarrow> \<exists>e. err = SocketError e"
proof (induction c s w rule: copy_loop.induct)
  case (1 c s w)
  obtain r1 c1 w1 where rd: "read c w = (r1, c1, w1)" by (cases "read c w") auto
  show ?case
  proof (cases r1)
    case (Inl e1)
    then show ?thesis using "1.prems" rd read_error [of c w e1 c1 w1]
      by (auto simp: copy_loop.simps [of c s w])
  next
    case (Inr d)
    show ?thesis
    proof (cases "d = []")
      case True
      then show ?thesis using "1.prems" rd Inr by (simp add: copy_loop.simps [of c s w])
    next
      case dne: False
      obtain s2 w2 where sw: "sink_write s d w1 = (s2, w2)" by (cases "sink_write s d w1") auto
      have rec: "copy_loop c1 s2 w2 = (Inl err, c', s', w')"
        using "1.prems" rd Inr dne sw by (simp add: copy_loop.simps [of c s w])
      show ?thesis
        using "1.IH" [OF rd [symmetric] _ _ dne sw [symmetric] _ rec] Inr by simp
    qed
  qed
qed

lemma copy_to_fd_error:
  assumes "copy_to_fd c f m w = (Inl err, c', w')"
  shows "err = TypeError \<or> (\<exists>e. err = SocketError e)"
proof (cases "buf c")
  case None
  then show ?thesis using assms by (auto simp: copy_to_fd_def drain_buffer_def)
next
  case (Some b)
  obtain s1 w1 where sw: "sink_write (make_sink f m) b w = (s1, w1)"
    by (cases "sink_write (make_sink f m) b w") auto
  obtain r2 c2 s2 w2 where cl: "copy_loop (c\<lparr>buf := None\<rparr>) s1 w1 = (r2, c2, s2, w2)"
    by (cases "copy_loop (c\<lparr>buf := None\<rparr>) s1 w1") auto
  have "r2 = Inl err" using assms Some sw cl by (simp add: copy_to_fd_def drain_buffer_def)
  then show ?thesis using copy_loop_error cl by blast
qed

lemma open_exclusive_cases:
  "open_exclusive path w =
     (if open_errors w path = None \<and> path \<notin> dom (fs w)
      then (Inr path, w\<lparr>fs := (fs w)(path \<mapsto> [])\<rparr>)
      else (Inl (OSError (case open_errors w path of None \<Rightarrow> EEXIST | Some e \<Rightarrow> e)), w))"
  by (auto simp: open_exclusive_def split: option.splits)

lemma append_line_frame:
  assumes "append_line path line w = (r, w')"
  shows "writes_only {path} w w'" and "\<forall>op. r \<noteq> Inl (CuckooOperationalError op)"
  using assms
  by (auto simp: append_line_def writes_only_def fd_write_def split: option.splits)

lemma FileUpload_write_char:
  assumes run: "FileUpload_write e p c w dump = (r, p', c', w')"
  shows "(p' = p \<and> c' = c \<and> fs w' = fs w \<and> open_errors w' = open_errors w \<and> (\<exists>err. r = Inl err))
       \<or> (\<exists>dec f. utf8_decode e dump = Some dec \<and> f = os_path_join (p_storagepath p) dec
             \<and> open_errors w f = None \<and> f \<notin> dom (fs w) \<and> p' = p\<lparr>fd := Some f\<rparr>
             \<and> f \<in> dom (fs w') \<and> open_errors w' = open_errors w
             \<and> dom (fs w) \<subseteq> dom (fs w')
             \<and> (\<forall>op. r \<noteq> Inl (CuckooOperationalError op)) \<and> same_session c c')"
proof (cases "header_get (header p) ''path'' JNull")
  case (Inl err)
  then show ?thesis using run by (auto simp: FileUpload_write_def)
next
  case path: (Inr path)
  show ?thesis
  proof (cases "header_get (header p) ''pids'' (JArr [])")
    case (Inl err)
    then show ?thesis using run path by (auto simp: FileUpload_write_def)
  next
    case pids: (Inr pids)
    let ?w1 = "emit (Log DEBUG ''File upload'') w"
    show ?thesis
    proof (cases "utf8_decode e dump")
      case None
      then show ?thesis using run path pids by (auto simp: FileUpload_write_def emit_def)
    next
      case dec: (Some dec)
      let ?f = "os_path_join (p_storagepath p) dec"
      show ?thesis
      proof (cases "open_errors w ?f = None \<and> ?f \<notin> dom (fs w)")
        case False
        then have "open_exclusive ?f ?w1 =
            (Inl (OSError (case open_errors w ?f of None \<Rightarrow> EEXIST | Some e \<Rightarrow> e)), ?w1)"
          by (simp add: open_exclusive_cases emit_def)
        then have "p' = p \<and> c' = c \<and> w' = ?w1 \<and> (\<exists>err. r = Inl err)"
          using run path pids dec
          by (auto simp: FileUpload_write_def Let_def split: if_splits)
        then show ?thesis by (auto simp: emit_def)
      next
        case True
        let ?w2 = "?w1\<lparr>fs := (fs ?w1)(?f \<mapsto> [])\<rparr>"
        let ?p1 = "p\<lparr>fd := Some ?f\<rparr>"
        have op: "open_exclusive ?f ?w1 = (Inr ?f, ?w2)"
          using True by (simp add: open_exclusive_cases emit_def)
        have w2: "writes_only {?f} w ?w2" "?f \<in> dom (fs ?w2)"
          by (auto simp: writes_only_def emit_def)
        obtain ra w3 where ap: "append_line (filelog ?p1)
              (json_dumps e (journal_entry dump path pids)) ?w2 = (ra, w3)"
          by (cases "append_line (filelog ?p1)
              (json_dumps e (journal_entry dump path pids)) ?w2") auto
        note af = append_line_frame [OF ap]
        have w3: "writes_only ({?f} \<union> {filelog ?p1}) w w3"
          using w2(1) af(1) by (rule writes_only_trans)
        have in3: "?f \<in> dom (fs w3)" using w2(2) af(1) by (auto simp: writes_only_def)
        show ?thesis
        proof (cases ra)
          case (Inl err)
          then have res: "r = Inl err" "p' = ?p1" "c' = c" "w' = w3"
            using run path pids dec op ap by (auto simp: FileUpload_write_def Let_def)
          have "\<forall>op. r \<noteq> Inl (CuckooOperationalError op)" using af(2) Inl res by simp
          then show ?thesis
            using True dec res w3 in3 by (auto simp: writes_only_def same_session_refl)
        next
          case (Inr u)
          let ?w4 = "emit (SetTimeout None) w3"
          obtain r5 c5 w5 where cp: "copy_to_fd c ?f (Some (upload_max_size ?p1)) ?w4 = (r5, c5, w5)"
            by (cases "copy_to_fd c ?f (Some (upload_max_size ?p1)) ?w4") auto
          note cf = copy_to_fd_frame [OF cp]
          have res: "r = r5" "p' = ?p1" "c' = c5" "w' = emit (Log DEBUG ''uploaded file length'') w5"
            using run path pids dec op ap Inr cp by (auto simp: FileUpload_write_def Let_def)
          have "writes_only ({?f} \<union> {filelog ?p1}) w ?w4"
            using w3 by (rule writes_only_emit)
          then have "writes_only ({?f} \<union> {filelog ?p1} \<union> {?f}) w w5"
            using cf(1) by (rule writes_only_trans)
          then have w5: "writes_only ({?f} \<union> {filelog ?p1} \<union> {?f}) w w'"
            using res(4) by (simp add: writes_only_emit)
          have "?f \<in> dom (fs ?w4)" using in3 by (simp add: emit_def)
          then have "?f \<in> dom (fs w5)" using cf(1) by (auto simp: writes_only_def)
          then have in5: "?f \<in> dom (fs w')" using res(4) by (simp add: emit_def)
          have noop: "\<forall>op. r \<noteq> Inl (CuckooOperationalError op)"
            using copy_to_fd_error [of c ?f "Some (upload_max_size ?p1)" ?w4 _ c5 w5] cp res(1)
            by auto
          show ?thesis
            using True dec res(2,3) w5 in5 noop cf(2) by (auto simp: writes_only_def)
        qed
      qed
    qed
  qed
qed



lemma FileUpload_store_char:
  assumes run: "FileUpload_store e p c w = (r, p', c', w')"
  shows "(p' = p \<and> c' = c \<and> fs w' = fs w \<and> open_errors w' = open_errors w \<and> (\<exists>err. r = Inl err))
       \<or> (\<exists>raw dump dec f.
             header_get (header p) ''store_as'' JNull = Inr (JStr raw)
             \<and> netlog_sanitize_fname raw = Inr dump
             \<and> utf8_decode e dump = Some dec \<and> f = os_path_join (p_storagepath p) dec
             \<and> open_errors w f = None \<and> f \<notin> dom (fs w) \<and> p' = p\<lparr>fd := Some f\<rparr>
             \<and> f \<in> dom (fs w') \<and> open_errors w' = open_errors w
             \<and> dom (fs w) \<subseteq> dom (fs w')
             \<and> (\<forall>op. r \<noteq> Inl (CuckooOperationalError op)) \<and> same_session c c')"
proof (cases "header_get (header p) ''store_as'' JNull")
  case (Inl err)
  then show ?thesis using run by (auto simp: FileUpload_store_def)
next
  case sa: (Inr store_as)
  show ?thesis
  proof (cases "truthy store_as")
    case False
    then show ?thesis using run sa by (auto simp: FileUpload_store_def)
  next
    case True
    show ?thesis
    proof (cases "\<exists>raw. store_as = JStr raw")
      case False
      then have "FileUpload_store e p c w = (Inl AttributeError, p, c, w)"
        using sa True by (cases store_as) (auto simp: FileUpload_store_def)
      then show ?thesis using run by auto
    next
      case str: True
      then obtain raw where raw: "store_as = JStr raw" by blast
      show ?thesis
      proof (cases "netlog_sanitize_fname raw")
        case (Inl err)
        then show ?thesis using run sa True raw by (auto simp: FileUpload_store_def)
      next
        case (Inr dump)
        then have "FileUpload_write e p c w dump = (r, p', c', w')"
          using run sa True raw by (simp add: FileUpload_store_def)
        then show ?thesis
          using FileUpload_write_char [of e p c w dump r p' c' w'] sa raw Inr by blast
      qed
    qed
  qed
qed



lemma FileUpload_handle_char:
  assumes run: "FileUpload_handle e p c w = (r, p', c', w')"
  shows "same_session c c'" and "filelog p' = filelog p" and "p_storagepath p' = p_storagepath p"
    and "(fd p' = fd p \<and> fs w' = fs w \<and> open_errors w' = open_errors w \<and> (\<exists>err. r = Inl err))
       \<or> (\<exists>raw dump dec f.
             header_get (header p') ''store_as'' JNull = Inr (JStr raw)
             \<and> netlog_sanitize_fname raw = Inr dump
             \<and> utf8_decode e dump = Some dec \<and> f = os_path_join (p_storagepath p) dec
             \<and> open_errors w f = None \<and> f \<notin> dom (fs w) \<and> fd p' = Some f
             \<and> f \<in> dom (fs w') \<and> open_errors w' = open_errors w
             \<and> dom (fs w) \<subseteq> dom (fs w')
             \<and> (\<forall>op. r \<noteq> Inl (CuckooOperationalError op)))"
proof -
  let ?w0 = "emit (SetTimeout (Some 30)) w"
  obtain rh c1 w1 where hd: "FileUpload_header e p c ?w0 = (rh, c1, w1)"
    by (cases "FileUpload_header e p c ?w0") auto
  note hf = FileUpload_header_frame [OF hd]
  have w1: "fs w1 = fs w" "open_errors w1 = open_errors w"
    using hf(1) by (auto simp: writes_only_def emit_def)
  have all: "same_session c c' \<and> filelog p' = filelog p \<and> p_storagepath p' = p_storagepath p
     \<and> ((fd p' = fd p \<and> fs w' = fs w \<and> open_errors w' = open_errors w \<and> (\<exists>err. r = Inl err))
       \<or> (\<exists>raw dump dec f.
             header_get (header p') ''store_as'' JNull = Inr (JStr raw)
             \<and> netlog_sanitize_fname raw = Inr dump
             \<and> utf8_decode e dump = Some dec \<and> f = os_path_join (p_storagepath p) dec
             \<and> open_errors w f = None \<and> f \<notin> dom (fs w) \<and> fd p' = Some f
             \<and> f \<in> dom (fs w') \<and> open_errors w' = open_errors w
             \<and> dom (fs w) \<subseteq> dom (fs w')
             \<and> (\<forall>op. r \<noteq> Inl (CuckooOperationalError op))))"
  proof (cases rh)
    case (Inl err)
    then have "r = Inl err" "p' = p" "c' = c1" "w' = w1"
      using run hd by (auto simp: FileUpload_handle_def)
    then show ?thesis using hf(2) w1 by simp
  next
    case (Inr p1)
    then have st: "FileUpload_store e p1 c1 w1 = (r, p', c', w')"
      using run hd by (simp add: FileUpload_handle_def)
    note k = hf(3) [OF Inr]
    from FileUpload_store_char [OF st] show ?thesis
    proof
      assume "p' = p1 \<and> c' = c1 \<and> fs w' = fs w1 \<and> open_errors w' = open_errors w1
                \<and> (\<exists>err. r = Inl err)"
      then show ?thesis using hf(2) w1 k by simp
    next
      assume "\<exists>raw dump dec f.
             header_get (header p1) ''store_as'' JNull = Inr (JStr raw)
             \<and> netlog_sanitize_fname raw = Inr dump
             \<and> utf8_decode e dump = Some dec \<and> f = os_path_join (p_storagepath p1) dec
             \<and> open_errors w1 f = None \<and> f \<notin> dom (fs w1) \<and> p' = p1\<lparr>fd := Some f\<rparr>
             \<and> f \<in> dom (fs w') \<and> open_errors w' = open_errors w1
             \<and> dom (fs w1) \<subseteq> dom (fs w')
             \<and> (\<forall>op. r \<noteq> Inl (CuckooOperationalError op)) \<and> same_session c1 c'"
      then obtain raw dump dec f where o:
        "header_get (header p1) ''store_as'' JNull = Inr (JStr raw)"
        "netlog_sanitize_fname raw = Inr dump"
        "utf8_decode e dump = Some dec" "f = os_path_join (p_storagepath p1) dec"
        "open_errors w1 f = None" "f \<notin> dom (fs w1)" "p' = p1\<lparr>fd := Some f\<rparr>"
        "f \<in> dom (fs w')" "open_errors w' = open_errors w1"
        "dom (fs w1) \<subseteq> dom (fs w')"
        "\<forall>op. r \<noteq> Inl (CuckooOperationalError op)" "same_session c1 c'"
        by blast
      have "same_session c c'" using hf(2) o(12) by (rule same_session_trans)
      moreover have "header_get (header p') ''store_as'' JNull = Inr (JStr raw)"
        using o(1,7) by simp
      moreover have "f = os_path_join (p_storagepath p) dec" using o(4) k by simp
      moreover have "fd p' = Some f" using o(7) by simp
      ultimately show ?thesis using o w1 k by auto
    qed
  qed
  show "same_session c c'" using all by simp
  show "filelog p' = filelog p" using all by simp
  show "p_storagepath p' = p_storagepath p" using all by simp
  show "(fd p' = fd p \<and> fs w' = fs w \<and> open_errors w' = open_errors w \<and> (\<exists>err. r = Inl err))
       \<or> (\<exists>raw dump dec f.
             header_get (header p') ''store_as'' JNull = Inr (JStr raw)
             \<and> netlog_sanitize_fname raw = Inr dump
             \<and> utf8_decode e dump = Some dec \<and> f = os_path_join (p_storagepath p) dec
             \<and> open_errors w f = None \<and> f \<notin> dom (fs w) \<and> fd p' = Some f
             \<and> f \<in> dom (fs w') \<and> open_errors w' = open_errors w
             \<and> dom (fs w) \<subseteq> dom (fs w')
             \<and> (\<forall>op. r \<noteq> Inl (CuckooOperationalError op)))"
    using all by simp
qed


subsection \<open>At most one upload per destination, and the journal\<close>

text \<open>
  C9. A FILE handler starts without a file. If it ends without one, the file system
  is as it was, the journal \<open>files.json\<close> included. That is so whenever it raises an
  operational error: a missing \<open>store_as\<close>, a path that \<open>netlog_sanitize_fname\<close>
  rejects, or a destination that exists; and whenever the exclusive open fails for
  another reason. If the journal has changed, the destination has been created by
  the exclusive open.
\<close>

theorem FileUpload_journal_after_open:
  assumes "FileUpload_handle e p c w = (r, p', c', w')" and "fd p = None"
  shows "(fd p' = None \<longrightarrow> fs w' = fs w)
       \<and> ((\<exists>op. r = Inl (CuckooOperationalError op)) \<longrightarrow>
            fd p' = None \<and> fs w' (filelog p) = fs w (filelog p))
       \<and> (fs w' (filelog p) \<noteq> fs w (filelog p) \<longrightarrow>
            (\<exists>f. fd p' = Some f \<and> f \<notin> dom (fs w) \<and> f \<in> dom (fs w')))"
  using FileUpload_handle_char(4) [OF assms(1)] assms(2) by auto

theorem FileUpload_journal_after_open_witness:
  "fst (FileUpload_handle env0 (example_upload (JObj [(''store_as'', JStr ''../etc/passwd'')]))
          (example_ctx [Data ''abc'']) world0)
     = Inl (CuckooOperationalError (BannedPath ''../etc/passwd''))
   \<and> fs (snd (snd (snd (FileUpload_handle env0
          (example_upload (JObj [(''store_as'', JStr ''../etc/passwd'')]))
          (example_ctx [Data ''abc'']) world0)))) ''/analyses/7/files.json'' = None
   \<and> fst (FileUpload_handle env0 (example_upload (JObj [(''path'', JStr ''C:/a.exe'')]))
          (example_ctx [Data ''abc'']) world0)
     = Inl (CuckooOperationalError (NoDumpPath 7))
   \<and> fs (snd (snd (snd (FileUpload_handle env0
          (example_upload (JObj [(''path'', JStr ''C:/a.exe'')]))
          (example_ctx [Data ''abc'']) world0)))) ''/analyses/7/files.json'' = None"
proof -
  let ?pb = "example_upload (JObj [(''store_as'', JStr ''../etc/passwd'')])"
  let ?pn = "example_upload (JObj [(''path'', JStr ''C:/a.exe'')])"
  let ?c = "example_ctx [Data ''abc'']"
  let ?B = "FileUpload_handle env0 ?pb ?c world0"
  let ?N = "FileUpload_handle env0 ?pn ?c world0"
  have fl: "filelog ?pb = ''/analyses/7/files.json''" "filelog ?pn = ''/analyses/7/files.json''"
    "fd ?pb = None" "fd ?pn = None"
    by (simp_all add: example_upload_def FileUpload_init_def ProtocolHandler_init_def
          example_ctx_def HandlerContext_init_def os_path_join_def)
  have b: "fst ?B = Inl (CuckooOperationalError (BannedPath ''../etc/passwd''))"
    by (simp add: FileUpload_handle_def FileUpload_header_def FileUpload_store_def
          example_upload_def FileUpload_init_def ProtocolHandler_init_def sanitize_eval)
  have n: "fst ?N = Inl (CuckooOperationalError (NoDumpPath 7))"
    by (simp add: FileUpload_handle_def FileUpload_header_def FileUpload_store_def
          example_upload_def FileUpload_init_def ProtocolHandler_init_def)
  have eqB: "FileUpload_handle env0 ?pb ?c world0 =
      (fst ?B, fst (snd ?B), fst (snd (snd ?B)), snd (snd (snd ?B)))" by simp
  have eqN: "FileUpload_handle env0 ?pn ?c world0 =
      (fst ?N, fst (snd ?N), fst (snd (snd ?N)), snd (snd (snd ?N)))" by simp
  note tB = FileUpload_journal_after_open [OF eqB fl(3)]
  note tN = FileUpload_journal_after_open [OF eqN fl(4)]
  have "fs (snd (snd (snd ?B))) (filelog ?pb) = fs world0 (filelog ?pb)"
    using tB b by blast
  then have jb: "fs (snd (snd (snd ?B))) ''/analyses/7/files.json'' = None"
    unfolding fl(1) by (simp add: world0_def)
  have "fs (snd (snd (snd ?N))) (filelog ?pn) = fs world0 (filelog ?pn)"
    using tN n by blast
  then have jn: "fs (snd (snd (snd ?N))) ''/analyses/7/files.json'' = None"
    unfolding fl(2) by (simp add: world0_def)
  show ?thesis using b n jb jn by blast
qed





subsection \<open>Response ids and unknown commands\<close>







end
